theory Spec2Isabelle
  imports Main
begin

section \<open>Python values, exceptions and the observable trace\<close>

text \<open>
  The module \<^verbatim>\<open>xpra/gtk/error.py\<close> keeps one process-wide object \<^verbatim>\<open>trap\<close> whose only
  field is the nesting depth, and one module-level dictionary \<^verbatim>\<open>xerror_to_name\<close>.
  Everything else it does is a call into a collaborator: the Gdk error trap
  (\<^verbatim>\<open>error_trap_push\<close>, \<^verbatim>\<open>flush\<close>, \<^verbatim>\<open>error_trap_pop\<close>), the loggers \<^verbatim>\<open>log\<close> and \<^verbatim>\<open>elog\<close>,
  and \<^verbatim>\<open>traceback\<close>. The model threads a state record through every function and
  appends one event to a trace for each such call, in program order.
\<close>

text \<open>
  What a Python call can raise. \<open>XError\<close> carries its field \<^verbatim>\<open>msg\<close>. \<open>OtherException\<close>
  stands for any other instance of \<^verbatim>\<open>Exception\<close> (named by its class), and
  \<open>NonException\<close> for an instance of \<^verbatim>\<open>BaseException\<close> that is not an \<^verbatim>\<open>Exception\<close>
  (\<^verbatim>\<open>KeyboardInterrupt\<close>, \<^verbatim>\<open>SystemExit\<close>, \<^verbatim>\<open>GeneratorExit\<close>): a clause
  \<^verbatim>\<open>except Exception\<close> does not catch those, a context manager's \<^verbatim>\<open>__exit__\<close> sees them.
\<close>

datatype exn =
    XError string
  | AssertionError
  | TypeError
  | OtherException string
  | NonException string

fun is_XError :: "exn \<Rightarrow> bool" where
  "is_XError (XError m) = True"
| "is_XError e = False"

fun is_Exception :: "exn \<Rightarrow> bool" where
  "is_Exception (NonException n) = False"
| "is_Exception e = True"

text \<open>\<^verbatim>\<open>XError.__str__\<close>: \<^verbatim>\<open>"XError: %s" % self.msg\<close>.\<close>

definition XError_str :: "string \<Rightarrow> string" where
  "XError_str msg = ''XError: '' @ msg"

text \<open>The text an f-string gives for an exception class, \<^verbatim>\<open><class 'name'>\<close>.\<close>

fun class_name :: "exn \<Rightarrow> string" where
  "class_name (XError m) = ''xpra.gtk.error.XError''"
| "class_name AssertionError = ''AssertionError''"
| "class_name TypeError = ''TypeError''"
| "class_name (OtherException n) = n"
| "class_name (NonException n) = n"

definition class_repr :: "exn \<Rightarrow> string" where
  "class_repr e = ''<class '' @ [CHR 0x27] @ class_name e @ [CHR 0x27] @ ''>''"

text \<open>
  Python values as far as the module looks into them: an int, a tuple, or any other
  object, given by what \<^verbatim>\<open>str\<close> and \<^verbatim>\<open>repr\<close> return for it.
\<close>

datatype pyval =
    PyInt int
  | PyObj string string
  | PyTuple "pyval list"

fun digit_char :: "nat \<Rightarrow> char" where
  "digit_char n = char_of (48 + n)"

fun str_nat :: "nat \<Rightarrow> string" where
  "str_nat n = (if n < 10 then [digit_char n] else str_nat (n div 10) @ [digit_char (n mod 10)])"

declare str_nat.simps [simp del]

definition str_int :: "int \<Rightarrow> string" where
  "str_int i = (if i < 0 then CHR ''-'' # str_nat (nat (- i)) else str_nat (nat i))"

fun join_comma :: "string list \<Rightarrow> string" where
  "join_comma [] = []"
| "join_comma [x] = x"
| "join_comma (x # y # ys) = x @ '', '' @ join_comma (y # ys)"

fun py_repr :: "pyval \<Rightarrow> string" where
  "py_repr (PyInt i) = str_int i"
| "py_repr (PyObj s r) = r"
| "py_repr (PyTuple vs) =
     (case vs of
        [v] \<Rightarrow> ''('' @ py_repr v @ '',)''
      | _ \<Rightarrow> ''('' @ join_comma (map py_repr vs) @ '')'')"

fun py_str :: "pyval \<Rightarrow> string" where
  "py_str (PyInt i) = str_int i"
| "py_str (PyObj s r) = s"
| "py_str (PyTuple vs) = py_repr (PyTuple vs)"

text \<open>
  The expression \<^verbatim>\<open>" %s" % v\<close>: a tuple on the right is the argument list of the
  format, so it must hold exactly one value; anything else is the one argument.
\<close>

fun percent_s :: "pyval \<Rightarrow> exn + string" where
  "percent_s (PyTuple [v]) = Inr ('' '' @ py_str v)"
| "percent_s (PyTuple vs) = Inl TypeError"
| "percent_s v = Inr ('' '' @ py_str v)"

text \<open>
  The trace. A logging call is recorded with its logger, its level (\<^verbatim>\<open>log(...)\<close> is the
  debug level, \<^verbatim>\<open>log.error(...)\<close> the error level), the message as the source passes it
  (an f-string or a \<^verbatim>\<open>%\<close> expression is already evaluated, a format string is not) and
  the arguments; \<open>AObj\<close> is an argument whose text the module does not determine (a
  function, a traceback, a frame).
\<close>

datatype logger = Log_x11_util | Elog_x11_util_error

datatype level = Debug | Error

datatype logarg = AInt int | AStr string | ABool bool | AVal pyval | AObj

datatype event =
    GdkPush
  | GdkFlush
  | GdkPop int
  | Log logger level string "logarg list"
  | PrintStack

fun is_flush :: "event \<Rightarrow> bool" where
  "is_flush GdkFlush = True"
| "is_flush e = False"

fun is_pop :: "event \<Rightarrow> bool" where
  "is_pop (GdkPop c) = True"
| "is_pop e = False"

fun is_push :: "event \<Rightarrow> bool" where
  "is_push GdkPush = True"
| "is_push e = False"

fun is_gdk :: "event \<Rightarrow> bool" where
  "is_gdk (Log l v m as) = False"
| "is_gdk PrintStack = False"
| "is_gdk e = True"

fun is_error_log :: "event \<Rightarrow> bool" where
  "is_error_log (Log l Error m as) = True"
| "is_error_log e = False"

definition flushes :: "event list \<Rightarrow> nat" where
  "flushes evs = length (filter is_flush evs)"

definition pops :: "event list \<Rightarrow> nat" where
  "pops evs = length (filter is_pop evs)"

section \<open>State and environment\<close>

text \<open>
  \<open>depth\<close> is \<^verbatim>\<open>trap.depth\<close>, \<open>xerror_to_name\<close> the module's dictionary (in insertion
  order), \<open>gdk\<close> the state of the display connection, which only the Gdk calls and the
  guarded functions touch, \<open>events\<close> the trace.
\<close>

record 'g trap_state =
  depth :: int
  xerror_to_name :: "(int \<times> string) list"
  gdk :: 'g
  events :: "event list"

text \<open>
  What the module reads from outside itself: the four environment switches, read once
  at import; \<^verbatim>\<open>is_main_thread()\<close>; \<^verbatim>\<open>traceback.extract_stack()\<close>, one entry per frame, each
  the lines \<^verbatim>\<open>traceback.format_list\<close> prints for it; the import of \<^verbatim>\<open>constants\<close> from the
  X11 window bindings (an exception when the bindings are not there);
  \<^verbatim>\<open>X11CoreBindings().get_error_text\<close> (the import and the call together); and the three
  Gdk calls as functions on the connection state.
\<close>

record 'g environment =
  XPRA_SYNCHRONIZE :: bool
  XPRA_LOG_SYNC :: bool
  VERIFY_MAIN_THREAD :: bool
  LOG_NESTED_XTRAP :: bool
  is_main_thread :: bool
  extract_stack :: "string list list"
  constants :: "exn + (string \<times> int) list"
  get_error_text :: "int \<Rightarrow> exn + string"
  error_trap_push :: "'g \<Rightarrow> 'g"
  flush :: "'g \<Rightarrow> 'g"
  error_trap_pop :: "'g \<Rightarrow> int \<times> 'g"

definition emit :: "event \<Rightarrow> 'g trap_state \<Rightarrow> 'g trap_state" where
  "emit ev s = s\<lparr>events := events s @ [ev]\<rparr>"

definition emits :: "event list \<Rightarrow> 'g trap_state \<Rightarrow> 'g trap_state" where
  "emits evs s = s\<lparr>events := events s @ evs\<rparr>"

section \<open>Error names: \<^verbatim>\<open>get_X_error\<close>\<close>

text \<open>Assignment \<^verbatim>\<open>d[k] = v\<close> on a dictionary kept in insertion order.\<close>

fun dict_set :: "int \<Rightarrow> string \<Rightarrow> (int \<times> string) list \<Rightarrow> (int \<times> string) list" where
  "dict_set k v [] = [(k, v)]"
| "dict_set k v ((k', v') # kvs) =
     (if k' = k then (k, v) # kvs else (k', v') # dict_set k v kvs)"

definition startswith_Bad :: "string \<Rightarrow> bool" where
  "startswith_Bad name = (take 3 name = ''Bad'')"

text \<open>The loop over \<^verbatim>\<open>constants.items()\<close>.\<close>

fun add_names :: "(string \<times> int) list \<Rightarrow> (int \<times> string) list \<Rightarrow> (int \<times> string) list" where
  "add_names [] d = d"
| "add_names ((name, code) # cs) d =
     (if name = ''Success'' \<or> startswith_Bad name
      then add_names cs (dict_set code name d)
      else add_names cs d)"

text \<open>
  The body of the \<^verbatim>\<open>with log.trap_error(...)\<close> block for an int: it returns a name, or
  raises what the import or the binding raises.
\<close>

definition get_X_error_body ::
  "'g environment \<Rightarrow> int \<Rightarrow> 'g trap_state \<Rightarrow> (exn + string) \<times> 'g trap_state" where
  "get_X_error_body env xerror s =
     (case constants env of
        Inl e \<Rightarrow> (Inl e, s)
      | Inr cs \<Rightarrow>
          let s1 =
            (if xerror_to_name s = []
             then emit (Log Log_x11_util Debug ''get_X_error(..) initialized error names: %s'' [AObj])
                    (s\<lparr>xerror_to_name := add_names cs (dict_set 0 ''OK'' (xerror_to_name s))\<rparr>)
             else s)
          in (case map_of (xerror_to_name s1) xerror of
                Some name \<Rightarrow> (Inr (if name = [] then str_int xerror else name), s1)
              | None \<Rightarrow>
                  (case get_error_text env xerror of
                     Inl e \<Rightarrow> (Inl e, s1)
                   | Inr t \<Rightarrow> (Inr t, s1))))"

text \<open>
  Modelled from the spec: \<^verbatim>\<open>Logger.trap_error\<close> of \<^verbatim>\<open>xpra/log.py\<close>, which is not among
  the source files. The spec asks that name resolution tolerate the native binding being
  unavailable and return the stringified code, so the context manager logs the exception
  raised in its block at the error level and suppresses it; the statement after the
  \<^verbatim>\<open>with\<close> block then runs.
\<close>

definition trap_error ::
  "string \<Rightarrow> logarg list \<Rightarrow> ('g trap_state \<Rightarrow> (exn + 'a) \<times> 'g trap_state) \<Rightarrow>
   'g trap_state \<Rightarrow> 'a option \<times> 'g trap_state" where
  "trap_error message args body s =
     (case body s of
        (Inr v, s1) \<Rightarrow> (Some v, s1)
      | (Inl e, s1) \<Rightarrow> (None, emit (Log Log_x11_util Error message args) s1))"

definition get_X_error :: "'g environment \<Rightarrow> pyval \<Rightarrow> 'g trap_state \<Rightarrow> string \<times> 'g trap_state" where
  "get_X_error env xerror s =
     (case xerror of
        PyInt i \<Rightarrow>
          (case trap_error ''Error retrieving error string for %s'' [AInt i]
                  (get_X_error_body env i) s of
             (Some name, s1) \<Rightarrow> (name, s1)
           | (None, s1) \<Rightarrow> (str_int i, s1))
      | _ \<Rightarrow> (py_str xerror, s))"

text \<open>\<^verbatim>\<open>XError(message)\<close>: the constructor resolves the name.\<close>

definition new_XError :: "'g environment \<Rightarrow> pyval \<Rightarrow> 'g trap_state \<Rightarrow> exn \<times> 'g trap_state" where
  "new_XError env message s = (case get_X_error env message s of (msg, s1) \<Rightarrow> (XError msg, s1))"

section \<open>The error manager: \<^verbatim>\<open>_ErrorManager\<close>\<close>

definition verify_main_thread :: "'g environment \<Rightarrow> 'g trap_state \<Rightarrow> 'g trap_state" where
  "verify_main_thread env s =
     (if VERIFY_MAIN_THREAD env \<and> \<not> is_main_thread env
      then emits [Log Log_x11_util Error ''Error: invalid access from thread %s'' [AObj],
                  PrintStack] s
      else s)"

text \<open>An \<^verbatim>\<open>assert\<close> that fails raises \<^verbatim>\<open>AssertionError\<close> (Python run without \<^verbatim>\<open>-O\<close>).\<close>

definition Xenter :: "'g environment \<Rightarrow> 'g trap_state \<Rightarrow> (exn + unit) \<times> 'g trap_state" where
  "Xenter env s =
     (if \<not> depth s \<ge> 0 then (Inl AssertionError, s)
      else
        let s1 = verify_main_thread env s;
            s2 = emit GdkPush (s1\<lparr>gdk := error_trap_push env (gdk s1)\<rparr>);
            s3 = (if XPRA_LOG_SYNC env
                  then emit (Log Log_x11_util Debug ''X11trap.enter at level %i'' [AInt (depth s2)]) s2
                  else s2);
            s4 = (if LOG_NESTED_XTRAP env \<and> depth s3 > 0
                  then emits (map (\<lambda>x. Log Log_x11_util Debug ''%s'' [AObj]) (extract_stack env)) s3
                  else s3)
        in (Inr (), s4\<lparr>depth := depth s4 + 1\<rparr>))"

definition Xexit :: "'g environment \<Rightarrow> bool \<Rightarrow> 'g trap_state \<Rightarrow> (exn + unit) \<times> 'g trap_state" where
  "Xexit env need_sync s =
     (if \<not> depth s \<ge> 0 then (Inl AssertionError, s)
      else
        let s1 = s\<lparr>depth := depth s - 1\<rparr>;
            s2 = (if XPRA_LOG_SYNC env
                  then emit (Log Log_x11_util Debug ''X11trap.exit at level %i, need_sync=%s''
                               [AInt (depth s1), ABool need_sync]) s1
                  else s1);
            s3 = (if depth s2 = 0 \<and> need_sync
                  then emit GdkFlush (s2\<lparr>gdk := flush env (gdk s2)\<rparr>)
                  else s2);
            error = fst (error_trap_pop env (gdk s3));
            s4 = emit (GdkPop error) (s3\<lparr>gdk := snd (error_trap_pop env (gdk s3))\<rparr>)
        in if error \<noteq> 0
           then (case new_XError env (PyInt error) s4 of (e, s5) \<Rightarrow> (Inl e, s5))
           else (Inr (), s4))"

definition in_quotes :: "string \<Rightarrow> string" where
  "in_quotes x = [CHR 0x27] @ x @ [CHR 0x27]"

definition safe_x_exit :: "'g environment \<Rightarrow> 'g trap_state \<Rightarrow> (exn + unit) \<times> 'g trap_state" where
  "safe_x_exit env s =
     (case Xexit env True s of
        (Inr u, s1) \<Rightarrow> (Inr (), s1)
      | (Inl e, s1) \<Rightarrow>
          (case e of
             XError m \<Rightarrow>
               (Inr (), emit (Log Log_x11_util Debug
                   (''Warning: '' @ in_quotes (XError_str m) @
                    '' detected while already in unwind; discarding'') []) s1)
           | _ \<Rightarrow> (Inl e, s1)))"

text \<open>
  The \<^verbatim>\<open>except Exception\<close> clause of \<^verbatim>\<open>_call\<close>, entered with the exception \<open>e\<close> raised
  by \<^verbatim>\<open>Xenter\<close> or by the function. An exception that is not an \<^verbatim>\<open>Exception\<close> passes the
  clause by. An exception raised inside the clause that is not an \<^verbatim>\<open>XError\<close> replaces \<open>e\<close>.
\<close>

definition call_handler ::
  "'g environment \<Rightarrow> bool \<Rightarrow> exn \<Rightarrow> 'g trap_state \<Rightarrow> (exn + 'v) \<times> 'g trap_state" where
  "call_handler env need_sync e s =
     (if \<not> is_Exception e then (Inl e, s)
      else
        let s1 = emit (Log Elog_x11_util_error Debug ''_call%s'' [AObj]) s;
            s2 = emit (Log Log_x11_util Debug ''_call%s %s'' [AObj, AObj]) s1
        in (case Xexit env need_sync s2 of
              (Inr u, s3) \<Rightarrow> (Inl e, s3)
            | (Inl ee, s3) \<Rightarrow>
                (case ee of
                   XError m \<Rightarrow>
                     (Inl e, emit (Log Log_x11_util Debug
                        (''XError '' @ in_quotes (XError_str m) @
                         '' detected while already in unwind; discarding'') []) s3)
                 | _ \<Rightarrow> (Inl ee, s3))))"

text \<open>\<^verbatim>\<open>_call\<close>. The function and its arguments are one state transformer \<open>fun\<close>.\<close>

definition private_call ::
  "'g environment \<Rightarrow> bool \<Rightarrow> ('g trap_state \<Rightarrow> (exn + 'v) \<times> 'g trap_state) \<Rightarrow>
   'g trap_state \<Rightarrow> (exn + 'v) \<times> 'g trap_state" where
  "private_call env need_sync fn s =
     (case Xenter env s of
        (Inl e, s1) \<Rightarrow> call_handler env need_sync e s1
      | (Inr u, s1) \<Rightarrow>
          (case fn s1 of
             (Inl e, s2) \<Rightarrow> call_handler env need_sync e s2
           | (Inr v, s2) \<Rightarrow>
               (case Xexit env need_sync s2 of
                  (Inl e, s3) \<Rightarrow> (Inl e, s3)
                | (Inr u, s3) \<Rightarrow> (Inr v, s3))))"

definition call_unsynced ::
  "'g environment \<Rightarrow> ('g trap_state \<Rightarrow> (exn + 'v) \<times> 'g trap_state) \<Rightarrow>
   'g trap_state \<Rightarrow> (exn + 'v) \<times> 'g trap_state" where
  "call_unsynced env fn s = private_call env False fn s"

definition call_synced ::
  "'g environment \<Rightarrow> ('g trap_state \<Rightarrow> (exn + 'v) \<times> 'g trap_state) \<Rightarrow>
   'g trap_state \<Rightarrow> (exn + 'v) \<times> 'g trap_state" where
  "call_synced env fn s = private_call env True fn s"

text \<open>The class body binds \<^verbatim>\<open>call\<close> once, by \<^verbatim>\<open>XPRA_SYNCHRONIZE\<close>.\<close>

definition call ::
  "'g environment \<Rightarrow> ('g trap_state \<Rightarrow> (exn + 'v) \<times> 'g trap_state) \<Rightarrow>
   'g trap_state \<Rightarrow> (exn + 'v) \<times> 'g trap_state" where
  "call env fn s = (if XPRA_SYNCHRONIZE env then call_synced env fn s else call_unsynced env fn s)"

definition swallow_result ::
  "(exn + 'v) \<times> 'g trap_state \<Rightarrow> (exn + bool) \<times> 'g trap_state" where
  "swallow_result r =
     (case r of
        (Inr v, s1) \<Rightarrow> (Inr True, s1)
      | (Inl e, s1) \<Rightarrow>
          (case e of
             XError m \<Rightarrow> (Inr False, emit (Log Log_x11_util Debug ''Ignoring X error on %s'' [AObj]) s1)
           | _ \<Rightarrow> (Inl e, s1)))"

definition swallow_unsynced ::
  "'g environment \<Rightarrow> ('g trap_state \<Rightarrow> (exn + 'v) \<times> 'g trap_state) \<Rightarrow>
   'g trap_state \<Rightarrow> (exn + bool) \<times> 'g trap_state" where
  "swallow_unsynced env fn s = swallow_result (call_unsynced env fn s)"

definition swallow_synced ::
  "'g environment \<Rightarrow> ('g trap_state \<Rightarrow> (exn + 'v) \<times> 'g trap_state) \<Rightarrow>
   'g trap_state \<Rightarrow> (exn + bool) \<times> 'g trap_state" where
  "swallow_synced env fn s = swallow_result (call_synced env fn s)"

definition swallow ::
  "'g environment \<Rightarrow> ('g trap_state \<Rightarrow> (exn + 'v) \<times> 'g trap_state) \<Rightarrow>
   'g trap_state \<Rightarrow> (exn + bool) \<times> 'g trap_state" where
  "swallow env fn s =
     (if XPRA_SYNCHRONIZE env then swallow_synced env fn s else swallow_unsynced env fn s)"

definition assert_out :: "'g trap_state \<Rightarrow> (exn + unit) \<times> 'g trap_state" where
  "assert_out s = (if depth s = 0 then (Inr (), s) else (Inl AssertionError, s))"

section \<open>The context managers\<close>

text \<open>
  The \<^verbatim>\<open>with\<close> statement: \<^verbatim>\<open>__enter__\<close>, the block, then \<^verbatim>\<open>__exit__\<close> with the exception
  of the block, if any. An exception of the block is re-raised unless \<^verbatim>\<open>__exit__\<close>
  returns a true value; an exception raised by \<^verbatim>\<open>__exit__\<close> itself replaces it.
\<close>

definition py_with ::
  "('s \<Rightarrow> (exn + unit) \<times> 's) \<Rightarrow> (exn option \<Rightarrow> 's \<Rightarrow> (exn + bool) \<times> 's) \<Rightarrow>
   ('s \<Rightarrow> (exn + unit) \<times> 's) \<Rightarrow> 's \<Rightarrow> (exn + unit) \<times> 's" where
  "py_with enter exit block s =
     (case enter s of
        (Inl e, s1) \<Rightarrow> (Inl e, s1)
      | (Inr u, s1) \<Rightarrow>
          (case block s1 of
             (Inr u, s2) \<Rightarrow>
               (case exit None s2 of
                  (Inl e, s3) \<Rightarrow> (Inl e, s3)
                | (Inr b, s3) \<Rightarrow> (Inr (), s3))
           | (Inl e, s2) \<Rightarrow>
               (case exit (Some e) s2 of
                  (Inl e', s3) \<Rightarrow> (Inl e', s3)
                | (Inr b, s3) \<Rightarrow> (if b then (Inr (), s3) else (Inl e, s3)))))"

definition XSyncContext_exit ::
  "'g environment \<Rightarrow> exn option \<Rightarrow> 'g trap_state \<Rightarrow> (exn + bool) \<times> 'g trap_state" where
  "XSyncContext_exit env e_typ s =
     (case Xexit env True s of
        (Inr u, s1) \<Rightarrow> (Inr False, s1)
      | (Inl e, s1) \<Rightarrow>
          (case e of
             XError m \<Rightarrow>
               (case e_typ of
                  None \<Rightarrow> (Inl e, s1)
                | Some t \<Rightarrow>
                    (Inr False, emit (Log Log_x11_util Debug
                       (''Ignoring '' @ class_repr t @ '' during Xexit, '' @ class_repr t @
                        '' will be raised instead'') []) s1))
           | _ \<Rightarrow> (Inl e, s1)))"

definition XSwallowContext_exit ::
  "'g environment \<Rightarrow> exn option \<Rightarrow> 'g trap_state \<Rightarrow> (exn + bool) \<times> 'g trap_state" where
  "XSwallowContext_exit env e_typ s =
     (let s1 = (case e_typ of
                  None \<Rightarrow> s
                | Some t \<Rightarrow> emit (Log Log_x11_util Debug ''XError swallowed: %s, %s'' [AObj, AObj]) s)
      in (case safe_x_exit env s1 of
            (Inl e, s2) \<Rightarrow> (Inl e, s2)
          | (Inr u, s2) \<Rightarrow> (Inr True, s2)))"

definition XLogContext_exit ::
  "'g environment \<Rightarrow> exn option \<Rightarrow> 'g trap_state \<Rightarrow> (exn + bool) \<times> 'g trap_state" where
  "XLogContext_exit env e_typ s =
     (let s1 = (case e_typ of
                  None \<Rightarrow> s
                | Some t \<Rightarrow> emits [Log Log_x11_util Error ''Error: %s, %s'' [AObj, AObj],
                                    Log Log_x11_util Error '' X11 log context'' []] s)
      in (case safe_x_exit env s1 of
            (Inl e, s2) \<Rightarrow> (Inl e, s2)
          | (Inr u, s2) \<Rightarrow> (Inr True, s2)))"

text \<open>\<^verbatim>\<open>with xsync:\<close>, \<^verbatim>\<open>with xswallow:\<close> and \<^verbatim>\<open>with xlog:\<close> around a block.\<close>

definition xsync ::
  "'g environment \<Rightarrow> ('g trap_state \<Rightarrow> (exn + unit) \<times> 'g trap_state) \<Rightarrow>
   'g trap_state \<Rightarrow> (exn + unit) \<times> 'g trap_state" where
  "xsync env block s = py_with (Xenter env) (XSyncContext_exit env) block s"

definition xswallow ::
  "'g environment \<Rightarrow> ('g trap_state \<Rightarrow> (exn + unit) \<times> 'g trap_state) \<Rightarrow>
   'g trap_state \<Rightarrow> (exn + unit) \<times> 'g trap_state" where
  "xswallow env block s = py_with (Xenter env) (XSwallowContext_exit env) block s"

definition xlog ::
  "'g environment \<Rightarrow> ('g trap_state \<Rightarrow> (exn + unit) \<times> 'g trap_state) \<Rightarrow>
   'g trap_state \<Rightarrow> (exn + unit) \<times> 'g trap_state" where
  "xlog env block s = py_with (Xenter env) (XLogContext_exit env) block s"

section \<open>\<^verbatim>\<open>verify_sync\<close>\<close>

text \<open>
  The stack is \<^verbatim>\<open>traceback.extract_stack()[:-1]\<close>; every line of every remaining frame
  is logged at the error level.
\<close>

definition log_stack :: "'g environment \<Rightarrow> 'g trap_state \<Rightarrow> 'g trap_state" where
  "log_stack env s =
     emits (map (\<lambda>v. Log Log_x11_util Error '' %s'' [AStr v]) (concat (butlast (extract_stack env)))) s"

definition verify_sync ::
  "'g environment \<Rightarrow> pyval list \<Rightarrow> 'g trap_state \<Rightarrow> (exn + unit) \<times> 'g trap_state" where
  "verify_sync env args s =
     (if depth s \<le> 0 then
        let s1 = emit (Log Log_x11_util Error ''Error: unmanaged X11 context'' []) s
        in (case args of
              [] \<Rightarrow> (Inr (), log_stack env s1)
            | a # rest \<Rightarrow>
                (case percent_s a of
                   Inl e \<Rightarrow> (Inl e, s1)
                 | Inr msg \<Rightarrow>
                     (Inr (), log_stack env (emit (Log Log_x11_util Error msg (map AVal rest)) s1))))
      else (Inr (), s))"

section \<open>Sequences of enter and exit calls\<close>

text \<open>
  A caller that makes a sequence of \<^verbatim>\<open>trap.Xenter()\<close> and \<^verbatim>\<open>trap.Xexit(need_sync)\<close> calls
  and goes on to the next call whatever the last one raised; the outcomes are collected.
\<close>

datatype op = Enter | Exit bool

fun run_op :: "'g environment \<Rightarrow> op \<Rightarrow> 'g trap_state \<Rightarrow> (exn + unit) \<times> 'g trap_state" where
  "run_op env Enter s = Xenter env s"
| "run_op env (Exit need_sync) s = Xexit env need_sync s"

fun run_ops ::
  "'g environment \<Rightarrow> op list \<Rightarrow> 'g trap_state \<Rightarrow> (exn + unit) list \<times> 'g trap_state" where
  "run_ops env [] s = ([], s)"
| "run_ops env (x # xs) s =
     (case run_op env x s of
        (r, s1) \<Rightarrow> (case run_ops env xs s1 of (rs, s2) \<Rightarrow> (r # rs, s2)))"

text \<open>
  Proper nesting, as bracket matching: \<open>nested k ops\<close> holds when \<open>ops\<close> closes exactly
  the \<open>k\<close> regions open before it and every region it opens.
\<close>

fun nested :: "nat \<Rightarrow> op list \<Rightarrow> bool" where
  "nested k [] = (k = 0)"
| "nested k (Enter # ops) = nested (Suc k) ops"
| "nested k (Exit b # ops) = (0 < k \<and> nested (k - 1) ops)"

text \<open>
  The spec's count: the exits of a sequence started at depth \<open>d\<close> that bring the depth
  to 0 with \<^verbatim>\<open>need_sync\<close> true, and the exits that bring it to 0 at all (one per
  outermost region).
\<close>

fun sync_exits_to_zero :: "int \<Rightarrow> op list \<Rightarrow> nat" where
  "sync_exits_to_zero d [] = 0"
| "sync_exits_to_zero d (Enter # ops) = sync_exits_to_zero (d + 1) ops"
| "sync_exits_to_zero d (Exit b # ops) =
     (if d - 1 = 0 \<and> b then 1 else 0) + sync_exits_to_zero (d - 1) ops"

fun exits_to_zero :: "int \<Rightarrow> op list \<Rightarrow> nat" where
  "exits_to_zero d [] = 0"
| "exits_to_zero d (Enter # ops) = exits_to_zero (d + 1) ops"
| "exits_to_zero d (Exit b # ops) =
     (if d - 1 = 0 then 1 else 0) + exits_to_zero (d - 1) ops"

section \<open>Notions used to state the properties\<close>

text \<open>The Gdk calls of a trace, in order, without the logging.\<close>

definition gdk_trace :: "event list \<Rightarrow> event list" where
  "gdk_trace evs = filter is_gdk evs"

text \<open>
  What \<^verbatim>\<open>Xexit(need_sync)\<close> does from a state whose assertion holds: whether it
  flushes (the depth it decrements to is 0 and \<^verbatim>\<open>need_sync\<close> is true), the connection
  state it pops from, and the code the pop returns.
\<close>

definition exit_flush :: "bool \<Rightarrow> 'g trap_state \<Rightarrow> bool" where
  "exit_flush need_sync s = (depth s = 1 \<and> need_sync)"

definition gdk_before_pop :: "'g environment \<Rightarrow> bool \<Rightarrow> 'g trap_state \<Rightarrow> 'g" where
  "gdk_before_pop env need_sync s = (if exit_flush need_sync s then flush env (gdk s) else gdk s)"

definition exit_code :: "'g environment \<Rightarrow> bool \<Rightarrow> 'g trap_state \<Rightarrow> int" where
  "exit_code env need_sync s = fst (error_trap_pop env (gdk_before_pop env need_sync s))"

text \<open>An outcome of an enter or exit call that is a normal return or an \<^verbatim>\<open>XError\<close>.\<close>

definition benign :: "exn + unit \<Rightarrow> bool" where
  "benign r = (case r of Inr u \<Rightarrow> True | Inl e \<Rightarrow> is_XError e)"

text \<open>
  The symbolic name of a code among the binding's constants: the last constant named
  \<^verbatim>\<open>Success\<close> or \<^verbatim>\<open>Bad...\<close> whose value is the code, if there is one.
\<close>

fun symbolic_name :: "(string \<times> int) list \<Rightarrow> int \<Rightarrow> string option" where
  "symbolic_name [] i = None"
| "symbolic_name ((name, code) # cs) i =
     (case symbolic_name cs i of
        Some n \<Rightarrow> Some n
      | None \<Rightarrow> if code = i \<and> (name = ''Success'' \<or> startswith_Bad name) then Some name else None)"

text \<open>
  The scenario of three nested calls:
  \<^verbatim>\<open>trap.call_unsynced(lambda: trap.call_unsynced(lambda: trap.call_unsynced(fn)))\<close>.
\<close>

definition three_nested_unsynced ::
  "'g environment \<Rightarrow> ('g trap_state \<Rightarrow> (exn + 'v) \<times> 'g trap_state) \<Rightarrow>
   'g trap_state \<Rightarrow> (exn + 'v) \<times> 'g trap_state" where
  "three_nested_unsynced env fn s =
     call_unsynced env (\<lambda>s1. call_unsynced env (\<lambda>s2. call_unsynced env fn s2) s1) s"

text \<open>
  A concrete environment for examples. The switches have the defaults of the source
  (\<^verbatim>\<open>XPRA_SYNCHRONIZE\<close>, \<^verbatim>\<open>XPRA_LOG_SYNC\<close> and \<^verbatim>\<open>LOG_NESTED_XTRAP\<close> off,
  \<^verbatim>\<open>XPRA_VERIFY_MAIN_THREAD\<close> on). The connection state is the list of the codes that
  the coming calls of \<^verbatim>\<open>error_trap_pop\<close> return, 0 once it is used up.
\<close>

definition tape_pop :: "int list \<Rightarrow> int \<times> int list" where
  "tape_pop g = (case g of [] \<Rightarrow> (0, []) | c # cs \<Rightarrow> (c, cs))"

definition example_env :: "int list environment" where
  "example_env =
     \<lparr>XPRA_SYNCHRONIZE = False, XPRA_LOG_SYNC = False, VERIFY_MAIN_THREAD = True,
      LOG_NESTED_XTRAP = False, is_main_thread = True,
      extract_stack = [[''File a.py, line 1, in main'', ''  run()''],
                       [''File b.py, line 2, in run'', ''  verify_sync()''],
                       [''File error.py, line 248, in verify_sync'']],
      constants = Inr [(''Success'', 0), (''BadRequest'', 1), (''BadValue'', 2),
                       (''BadWindow'', 3), (''BadMatch'', 8), (''CurrentTime'', 0)],
      get_error_text = (\<lambda>i. Inr (''error '' @ str_int i)),
      error_trap_push = (\<lambda>g. g), flush = (\<lambda>g. g), error_trap_pop = tape_pop\<rparr>"

text \<open>The state of a fresh process: depth 0, no names cached, nothing traced.\<close>

definition idle_state :: "'g \<Rightarrow> 'g trap_state" where
  "idle_state g = \<lparr>depth = 0, xerror_to_name = [], gdk = g, events = []\<rparr>"

section \<open>Frame and trace lemmas\<close>

lemma gdk_trace_append [simp]: "gdk_trace (xs @ ys) = gdk_trace xs @ gdk_trace ys"
  by (simp add: gdk_trace_def)

lemma gdk_trace_simps [simp]:
  "gdk_trace [] = []"
  "gdk_trace (GdkPush # evs) = GdkPush # gdk_trace evs"
  "gdk_trace (GdkFlush # evs) = GdkFlush # gdk_trace evs"
  "gdk_trace (GdkPop c # evs) = GdkPop c # gdk_trace evs"
  "gdk_trace (Log l v m as # evs) = gdk_trace evs"
  "gdk_trace (PrintStack # evs) = gdk_trace evs"
  by (simp_all add: gdk_trace_def)

lemma emit_simps [simp]:
  "depth (emit ev s) = depth s"
  "gdk (emit ev s) = gdk s"
  "xerror_to_name (emit ev s) = xerror_to_name s"
  "events (emit ev s) = events s @ [ev]"
  by (simp_all add: emit_def)

lemma emits_simps [simp]:
  "depth (emits evs s) = depth s"
  "gdk (emits evs s) = gdk s"
  "xerror_to_name (emits evs s) = xerror_to_name s"
  "events (emits evs s) = events s @ evs"
  by (simp_all add: emits_def)

lemma get_X_error_body_frame:
  "depth (snd (get_X_error_body env i s)) = depth s \<and>
   gdk (snd (get_X_error_body env i s)) = gdk s \<and>
   gdk_trace (events (snd (get_X_error_body env i s))) = gdk_trace (events s)"
  by (simp add: get_X_error_body_def Let_def split: sum.splits option.splits)

lemma get_X_error_frame:
  "depth (snd (get_X_error env v s)) = depth s \<and>
   gdk (snd (get_X_error env v s)) = gdk s \<and>
   gdk_trace (events (snd (get_X_error env v s))) = gdk_trace (events s)"
proof (cases v)
  case (PyInt i)
  obtain r s1 where b: "get_X_error_body env i s = (r, s1)" by (cases "get_X_error_body env i s")
  from get_X_error_body_frame [of env i s] b
  have f: "depth s1 = depth s" "gdk s1 = gdk s" "gdk_trace (events s1) = gdk_trace (events s)" by simp_all
  show ?thesis using PyInt b f
    by (cases r) (simp_all add: get_X_error_def trap_error_def)
qed (simp_all add: get_X_error_def)

lemma new_XError_eq:
  "new_XError env v s = (XError (fst (get_X_error env v s)), snd (get_X_error env v s))"
  by (cases "get_X_error env v s") (simp add: new_XError_def)

lemma verify_main_thread_frame [simp]:
  "depth (verify_main_thread env s) = depth s"
  "gdk (verify_main_thread env s) = gdk s"
  "xerror_to_name (verify_main_thread env s) = xerror_to_name s"
  "gdk_trace (events (verify_main_thread env s)) = gdk_trace (events s)"
  by (simp_all add: verify_main_thread_def)

lemma gdk_trace_map_Log [simp]: "gdk_trace (map (\<lambda>x. Log l v m (as x)) xs) = []"
  by (induction xs) simp_all

lemma Xenter_ok:
  assumes "0 \<le> depth s"
  shows "fst (Xenter env s) = Inr ()"
    and "depth (snd (Xenter env s)) = depth s + 1"
    and "gdk (snd (Xenter env s)) = error_trap_push env (gdk s)"
    and "xerror_to_name (snd (Xenter env s)) = xerror_to_name s"
    and "gdk_trace (events (snd (Xenter env s))) = gdk_trace (events s) @ [GdkPush]"
  using assms by (simp_all add: Xenter_def Let_def)

lemma Xenter_fail:
  assumes "depth s < 0"
  shows "Xenter env s = (Inl AssertionError, s)"
  using assms by (simp add: Xenter_def)

lemma Xexit_ok:
  assumes "0 \<le> depth s"
  shows "depth (snd (Xexit env b s)) = depth s - 1"
    and "gdk (snd (Xexit env b s)) = snd (error_trap_pop env (gdk_before_pop env b s))"
    and "gdk_trace (events (snd (Xexit env b s))) =
           gdk_trace (events s) @ (if exit_flush b s then [GdkFlush] else []) @ [GdkPop (exit_code env b s)]"
    and "exit_code env b s = 0 \<Longrightarrow> fst (Xexit env b s) = Inr ()"
    and "exit_code env b s \<noteq> 0 \<Longrightarrow> \<exists>m. fst (Xexit env b s) = Inl (XError m)"
  using assms
  by (auto simp add: Xexit_def Let_def exit_code_def gdk_before_pop_def exit_flush_def
        new_XError_eq get_X_error_frame)



lemma flushes_append [simp]: "flushes (xs @ ys) = flushes xs + flushes ys"
  by (simp add: flushes_def)

lemma pops_append [simp]: "pops (xs @ ys) = pops xs + pops ys"
  by (simp add: pops_def)

lemma flushes_gdk_trace: "flushes (gdk_trace evs) = flushes evs"
proof (induction evs)
  case Nil
  show ?case by simp
next
  case (Cons e evs)
  then show ?case by (cases e) (simp_all add: flushes_def)
qed

lemma pops_gdk_trace: "pops (gdk_trace evs) = pops evs"
proof (induction evs)
  case Nil
  show ?case by simp
next
  case (Cons e evs)
  then show ?case by (cases e) (simp_all add: pops_def)
qed

lemma flushes_eq_of_gdk_trace:
  "gdk_trace evs' = gdk_trace evs @ xs \<Longrightarrow> flushes evs' = flushes evs + flushes xs"
  by (metis flushes_gdk_trace flushes_append)

lemma pops_eq_of_gdk_trace:
  "gdk_trace evs' = gdk_trace evs @ xs \<Longrightarrow> pops evs' = pops evs + pops xs"
  by (metis pops_gdk_trace pops_append)

lemma Xenter_flushes:
  "flushes (events (snd (Xenter env s))) = flushes (events s)"
proof (cases "0 \<le> depth s")
  case True
  from flushes_eq_of_gdk_trace [OF Xenter_ok(5) [OF True]]
  show ?thesis by (simp add: flushes_def)
next
  case False
  then show ?thesis by (simp add: Xenter_def)
qed

lemma Xexit_fail: "depth s < 0 \<Longrightarrow> Xexit env b s = (Inl AssertionError, s)"
  by (simp add: Xexit_def)

lemma Xexit_flushes:
  "flushes (events (snd (Xexit env b s))) =
     flushes (events s) + (if depth s - 1 = 0 \<and> b then 1 else 0)"
proof (cases "0 \<le> depth s")
  case True
  from flushes_eq_of_gdk_trace [OF Xexit_ok(3) [OF True]]
  show ?thesis by (simp add: flushes_def exit_flush_def)
next
  case False
  then show ?thesis by (simp add: Xexit_fail)
qed

lemma Xexit_pops:
  "0 \<le> depth s \<Longrightarrow> pops (events (snd (Xexit env b s))) = pops (events s) + 1"
  using pops_eq_of_gdk_trace [OF Xexit_ok(3)]
  by (simp add: pops_def)

lemma Xexit_outcome:
  assumes "0 \<le> depth s"
  shows "fst (Xexit env b s) = Inr () \<or> (\<exists>m. fst (Xexit env b s) = Inl (XError m))"
  using Xexit_ok(4,5) [OF assms] by blast

lemma Xexit_XError_depth:
  assumes "fst (Xexit env b s) = Inl (XError m)"
  shows "depth (snd (Xexit env b s)) = depth s - 1"
proof (cases "0 \<le> depth s")
  case True
  then show ?thesis by (rule Xexit_ok(1))
next
  case False
  with assms show ?thesis by (simp add: Xexit_fail)
qed

lemma run_ops_Cons:
  "snd (run_ops env (x # xs) s) = snd (run_ops env xs (snd (run_op env x s)))"
  "fst (run_ops env (x # xs) s) = fst (run_op env x s) # fst (run_ops env xs (snd (run_op env x s)))"
  by (simp_all split: prod.splits)

lemma run_ops_nested:
  "nested k ops \<Longrightarrow> int k \<le> depth s \<Longrightarrow>
     depth (snd (run_ops env ops s)) = depth s - int k \<and>
     flushes (events (snd (run_ops env ops s))) = flushes (events s) + sync_exits_to_zero (depth s) ops \<and>
     list_all benign (fst (run_ops env ops s))"
proof (induction ops arbitrary: k s)
  case Nil
  then show ?case by simp
next
  case (Cons x ops)
  show ?case
  proof (cases x)
    case Enter
    let ?s1 = "snd (Xenter env s)"
    have d: "0 \<le> depth s" using Cons.prems by simp
    have n: "nested (Suc k) ops" using Cons.prems Enter by simp
    have k1: "int (Suc k) \<le> depth ?s1" using Cons.prems Xenter_ok(2) [OF d, of env] by simp
    have bn: "benign (fst (Xenter env s))"
      using Xenter_ok(1) [OF d, of env] by (simp add: benign_def)
    from Cons.IH [OF n k1] Xenter_ok(2) [OF d, of env] Xenter_flushes [of env s] bn
    show ?thesis using Enter
      by (simp add: run_ops_Cons del: run_ops.simps)
  next
    case (Exit b)
    let ?s1 = "snd (Xexit env b s)"
    have kp: "0 < k" and n: "nested (k - 1) ops" using Cons.prems Exit by simp_all
    have d: "0 \<le> depth s" using Cons.prems by simp
    have k1: "int (k - 1) \<le> depth ?s1" using Cons.prems kp Xexit_ok(1) [OF d, of env b] by simp
    have bn: "benign (fst (Xexit env b s))"
      using Xexit_outcome [OF d, of env b] by (auto simp: benign_def)
    from Cons.IH [OF n k1] Xexit_ok(1) [OF d, of env b] Xexit_flushes [of env b s] bn kp
    show ?thesis using Exit
      by (simp add: run_ops_Cons del: run_ops.simps)
  qed
qed

lemma sync_exits_le: "sync_exits_to_zero d ops \<le> exits_to_zero d ops"
  by (induction d ops rule: sync_exits_to_zero.induct) auto



section \<open>The call combinator\<close>

lemma exit_emit [simp]:
  "exit_flush b (emit ev s) = exit_flush b s"
  "gdk_before_pop env b (emit ev s) = gdk_before_pop env b s"
  "exit_code env b (emit ev s) = exit_code env b s"
  by (simp_all add: exit_flush_def gdk_before_pop_def exit_code_def)

lemma get_X_error_body_cong:
  "xerror_to_name s = xerror_to_name s' \<Longrightarrow>
   fst (get_X_error_body env i s) = fst (get_X_error_body env i s')"
  by (simp add: get_X_error_body_def Let_def split: sum.splits option.splits)

lemma get_X_error_cong:
  assumes "xerror_to_name s = xerror_to_name s'"
  shows "fst (get_X_error env v s) = fst (get_X_error env v s')"
proof (cases v)
  case (PyInt i)
  from get_X_error_body_cong [OF assms, of env i]
  show ?thesis using PyInt
    by (cases "get_X_error_body env i s"; cases "get_X_error_body env i s'")
       (auto simp add: get_X_error_def trap_error_def split: sum.splits)
qed (simp_all add: get_X_error_def)

lemma Xexit_result:
  assumes "0 \<le> depth s"
  shows "fst (Xexit env b s) =
           (if exit_code env b s = 0 then Inr ()
            else Inl (XError (fst (get_X_error env (PyInt (exit_code env b s)) s))))"
proof -
  define R where "R = (\<lambda>v. fst (get_X_error env v s))"
  have c: "\<And>v s'. xerror_to_name s' = xerror_to_name s \<Longrightarrow> fst (get_X_error env v s') = R v"
    unfolding R_def by (rule get_X_error_cong)
  show ?thesis using assms
    by (auto simp add: Xexit_def Let_def exit_code_def gdk_before_pop_def exit_flush_def
          new_XError_eq c)
qed

lemma call_handler_Exception:
  assumes "is_Exception e" and "0 \<le> depth s"
  shows "fst (call_handler env b e s) = Inl e"
    and "depth (snd (call_handler env b e s)) = depth s - 1"
    and "gdk_trace (events (snd (call_handler env b e s))) =
           gdk_trace (events s) @ (if exit_flush b s then [GdkFlush] else []) @
           [GdkPop (exit_code env b s)]"
proof -
  let ?s2 = "emit (Log Log_x11_util Debug ''_call%s %s'' [AObj, AObj])
               (emit (Log Elog_x11_util_error Debug ''_call%s'' [AObj]) s)"
  have d: "0 \<le> depth ?s2" using assms by simp
  obtain r s3 where x: "Xexit env b ?s2 = (r, s3)" by (cases "Xexit env b ?s2")
  have r: "r = Inr () \<or> (\<exists>m. r = Inl (XError m))"
    using Xexit_outcome [OF d, of env b] x by simp
  have s3: "depth s3 = depth s - 1"
    "gdk_trace (events s3) =
       gdk_trace (events s) @ (if exit_flush b s then [GdkFlush] else []) @ [GdkPop (exit_code env b s)]"
    using Xexit_ok(1,3) [OF d, of env b] x by simp_all
  have h: "call_handler env b e s =
     (case r of Inr u \<Rightarrow> (Inl e, s3)
      | Inl ee \<Rightarrow> (case ee of XError m \<Rightarrow>
           (Inl e, emit (Log Log_x11_util Debug (''XError '' @ in_quotes (XError_str m) @
                         '' detected while already in unwind; discarding'') []) s3)
         | _ \<Rightarrow> (Inl ee, s3)))"
    using assms(1) x by (simp add: call_handler_def Let_def)
  show "fst (call_handler env b e s) = Inl e" using r by (auto simp add: h)
  show "depth (snd (call_handler env b e s)) = depth s - 1" using r s3 by (auto simp add: h)
  show "gdk_trace (events (snd (call_handler env b e s))) =
           gdk_trace (events s) @ (if exit_flush b s then [GdkFlush] else []) @
           [GdkPop (exit_code env b s)]"
    using r s3 by (auto simp add: h)
qed

lemma call_handler_NonException:
  "\<not> is_Exception e \<Longrightarrow> call_handler env b e s = (Inl e, s)"
  by (simp add: call_handler_def)

lemma private_call_raise:
  assumes "0 \<le> depth s" and "fn (snd (Xenter env s)) = (Inl e, s2)"
  shows "private_call env b fn s = call_handler env b e s2"
  using assms Xenter_ok(1) [OF assms(1), of env]
  by (cases "Xenter env s") (simp add: private_call_def)

lemma private_call_return:
  assumes "0 \<le> depth s" and "fn (snd (Xenter env s)) = (Inr v, s2)"
  shows "private_call env b fn s =
           (case Xexit env b s2 of (Inl e, s3) \<Rightarrow> (Inl e, s3) | (Inr u, s3) \<Rightarrow> (Inr v, s3))"
  using assms Xenter_ok(1) [OF assms(1), of env]
  by (cases "Xenter env s") (simp add: private_call_def)

lemma private_call_exit_once:
  assumes "0 \<le> depth s" and "fn (snd (Xenter env s)) = (Inl e, s2)"
    and "is_Exception e" and "0 \<le> depth s2"
  shows "fst (private_call env need_sync fn s) = Inl e \<and>
         depth (snd (private_call env need_sync fn s)) = depth s2 - 1 \<and>
         gdk_trace (events (snd (private_call env need_sync fn s))) =
           gdk_trace (events s2) @ (if exit_flush need_sync s2 then [GdkFlush] else []) @
           [GdkPop (exit_code env need_sync s2)] \<and>
         pops (events (snd (private_call env need_sync fn s))) = pops (events s2) + 1"
proof -
  have p: "private_call env need_sync fn s = call_handler env need_sync e s2"
    using private_call_raise [of s fn env e s2 need_sync] assms(1,2) by simp
  note h = call_handler_Exception [OF assms(3,4), of env need_sync]
  have "pops (events (snd (call_handler env need_sync e s2))) = pops (events s2) + 1"
    using pops_eq_of_gdk_trace [OF h(3)] by (simp add: pops_def)
  then show ?thesis using h by (simp add: p)
qed

lemma private_call_leak:
  assumes "0 \<le> depth s" and "fn (snd (Xenter env s)) = (Inl (NonException n), s2)"
  shows "private_call env need_sync fn s = (Inl (NonException n), s2)"
  using private_call_raise [of s fn env "NonException n" s2 need_sync] assms
  by (simp add: call_handler_NonException)



lemma private_call_exit_error:
  assumes "0 \<le> depth s" and "fn (snd (Xenter env s)) = (Inr v, s2)" and "0 \<le> depth s2"
    and "exit_code env b s2 \<noteq> 0"
  shows "fst (private_call env b fn s) =
           Inl (XError (fst (get_X_error env (PyInt (exit_code env b s2)) s2)))"
    and "depth (snd (private_call env b fn s)) = depth s2 - 1"
    and "gdk_trace (events (snd (private_call env b fn s))) =
           gdk_trace (events s2) @ (if exit_flush b s2 then [GdkFlush] else []) @
           [GdkPop (exit_code env b s2)]"
proof -
  have p: "private_call env b fn s =
        (case Xexit env b s2 of (Inl e, s3) \<Rightarrow> (Inl e, s3) | (Inr u, s3) \<Rightarrow> (Inr v, s3))"
    using private_call_return [of s fn env v s2 b] assms(1,2) by simp
  obtain r s3 where x: "Xexit env b s2 = (r, s3)" by (cases "Xexit env b s2")
  have r: "r = Inl (XError (fst (get_X_error env (PyInt (exit_code env b s2)) s2)))"
    using Xexit_result [OF assms(3), of env b] assms(4) x by simp
  have s3: "depth s3 = depth s2 - 1"
    "gdk_trace (events s3) =
       gdk_trace (events s2) @ (if exit_flush b s2 then [GdkFlush] else []) @
       [GdkPop (exit_code env b s2)]"
    using Xexit_ok(1,3) [OF assms(3), of env b] x by simp_all
  show "fst (private_call env b fn s) =
           Inl (XError (fst (get_X_error env (PyInt (exit_code env b s2)) s2)))"
    by (simp add: p x r)
  show "depth (snd (private_call env b fn s)) = depth s2 - 1"
    by (simp add: p x r s3)
  show "gdk_trace (events (snd (private_call env b fn s))) =
           gdk_trace (events s2) @ (if exit_flush b s2 then [GdkFlush] else []) @
           [GdkPop (exit_code env b s2)]"
    by (simp add: p x r s3)
qed

lemma exit_flush_False [simp]: "exit_flush False s = False"
  by (simp add: exit_flush_def)

lemma exit_code_False: "exit_code env False s = fst (error_trap_pop env (gdk s))"
  by (simp add: exit_code_def gdk_before_pop_def)

section \<open>Context managers and the unsynced variants\<close>

lemma safe_x_exit_ok:
  assumes "0 \<le> depth s"
  shows "fst (safe_x_exit env s) = Inr ()"
    and "depth (snd (safe_x_exit env s)) = depth s - 1"
    and "gdk_trace (events (snd (safe_x_exit env s))) =
           gdk_trace (events s) @ (if exit_flush True s then [GdkFlush] else []) @
           [GdkPop (exit_code env True s)]"
proof -
  obtain r s1 where x: "Xexit env True s = (r, s1)" by (cases "Xexit env True s")
  have r: "r = Inr () \<or> (\<exists>m. r = Inl (XError m))"
    using Xexit_outcome [OF assms, of env True] x by simp
  have s1: "depth s1 = depth s - 1"
    "gdk_trace (events s1) =
       gdk_trace (events s) @ (if exit_flush True s then [GdkFlush] else []) @
       [GdkPop (exit_code env True s)]"
    using Xexit_ok(1,3) [OF assms, of env True] x by simp_all
  show "fst (safe_x_exit env s) = Inr ()"
    using r x by (auto simp add: safe_x_exit_def)
  show "depth (snd (safe_x_exit env s)) = depth s - 1"
    using r x s1 by (auto simp add: safe_x_exit_def)
  show "gdk_trace (events (snd (safe_x_exit env s))) =
           gdk_trace (events s) @ (if exit_flush True s then [GdkFlush] else []) @
           [GdkPop (exit_code env True s)]"
    using r x s1 by (auto simp add: safe_x_exit_def)
qed

lemma XSwallowContext_exit_ok:
  assumes "0 \<le> depth s"
  shows "fst (XSwallowContext_exit env t s) = Inr True"
    and "depth (snd (XSwallowContext_exit env t s)) = depth s - 1"
    and "gdk_trace (events (snd (XSwallowContext_exit env t s))) =
           gdk_trace (events s) @ (if exit_flush True s then [GdkFlush] else []) @
           [GdkPop (exit_code env True s)]"
proof -
  define s1 where "s1 = (case t of None \<Rightarrow> s
     | Some u \<Rightarrow> emit (Log Log_x11_util Debug ''XError swallowed: %s, %s'' [AObj, AObj]) s)"
  have d: "0 \<le> depth s1" and g: "gdk_trace (events s1) = gdk_trace (events s)"
    and f: "exit_flush True s1 = exit_flush True s" and c: "exit_code env True s1 = exit_code env True s"
    using assms by (simp_all add: s1_def split: option.splits)
  have e: "XSwallowContext_exit env t s =
      (case safe_x_exit env s1 of (Inl e, s2) \<Rightarrow> (Inl e, s2) | (Inr u, s2) \<Rightarrow> (Inr True, s2))"
    by (simp add: XSwallowContext_exit_def s1_def)
  note h = safe_x_exit_ok [OF d, of env]
  show "fst (XSwallowContext_exit env t s) = Inr True"
    using h(1) by (cases "safe_x_exit env s1") (simp add: e)
  show "depth (snd (XSwallowContext_exit env t s)) = depth s - 1"
    using h(1,2) d by (cases "safe_x_exit env s1") (simp add: e s1_def split: option.splits)
  show "gdk_trace (events (snd (XSwallowContext_exit env t s))) =
           gdk_trace (events s) @ (if exit_flush True s then [GdkFlush] else []) @
           [GdkPop (exit_code env True s)]"
    using h(1,3) g f c by (cases "safe_x_exit env s1") (simp add: e)
qed

lemma py_with_entered:
  assumes "fst (enter s) = Inr ()"
  shows "py_with enter exit block s =
     (case block (snd (enter s)) of
        (Inr u, s2) \<Rightarrow>
          (case exit None s2 of (Inl e, s3) \<Rightarrow> (Inl e, s3) | (Inr b, s3) \<Rightarrow> (Inr (), s3))
      | (Inl e, s2) \<Rightarrow>
          (case exit (Some e) s2 of
             (Inl e', s3) \<Rightarrow> (Inl e', s3)
           | (Inr b, s3) \<Rightarrow> (if b then (Inr (), s3) else (Inl e, s3))))"
  using assms by (cases "enter s") (simp add: py_with_def)

lemma Xexit_unsynced_flushes:
  "flushes (events (snd (Xexit env False s))) = flushes (events s)"
  using Xexit_flushes [of env False s] by simp

lemma call_handler_unsynced_flushes:
  "flushes (events (snd (call_handler env False e s))) = flushes (events s)"
proof (cases "is_Exception e")
  case False
  then show ?thesis by (simp add: call_handler_NonException)
next
  case True
  let ?s2 = "emit (Log Log_x11_util Debug ''_call%s %s'' [AObj, AObj])
               (emit (Log Elog_x11_util_error Debug ''_call%s'' [AObj]) s)"
  have f: "flushes (events ?s2) = flushes (events s)" by (simp add: flushes_def)
  obtain r s3 where x: "Xexit env False ?s2 = (r, s3)" by (cases "Xexit env False ?s2")
  have s3: "flushes (events s3) = flushes (events s)"
    using Xexit_unsynced_flushes [of env ?s2] x f by simp
  show ?thesis using True x s3
    by (cases r) (auto simp add: call_handler_def Let_def flushes_def split: exn.splits)
qed

lemma private_call_unsynced_flushes:
  assumes "0 \<le> depth s"
  shows "flushes (events (snd (private_call env False fn s))) =
         flushes (events (snd (fn (snd (Xenter env s)))))"
proof -
  obtain r s2 where f: "fn (snd (Xenter env s)) = (r, s2)" by (cases "fn (snd (Xenter env s))")
  show ?thesis
  proof (cases r)
    case (Inl e)
    with f have "private_call env False fn s = call_handler env False e s2"
      using private_call_raise [of s fn env e s2 False] assms by simp
    then show ?thesis using f by (simp add: call_handler_unsynced_flushes)
  next
    case (Inr v)
    with f have p: "private_call env False fn s =
        (case Xexit env False s2 of (Inl e, s3) \<Rightarrow> (Inl e, s3) | (Inr u, s3) \<Rightarrow> (Inr v, s3))"
      using private_call_return [of s fn env v s2 False] assms by simp
    show ?thesis using Xexit_unsynced_flushes [of env s2] f
      by (cases "Xexit env False s2") (auto simp add: p split: sum.splits)
  qed
qed

lemma swallow_result_flushes:
  "flushes (events (snd (swallow_result r))) = flushes (events (snd r))"
  by (cases r) (auto simp add: swallow_result_def flushes_def split: sum.splits exn.splits)

section \<open>Name resolution and \<^verbatim>\<open>verify_sync\<close>\<close>

lemma map_of_dict_set: "map_of (dict_set k v d) = (map_of d)(k \<mapsto> v)"
  by (induction d) auto

lemma map_of_add_names:
  "map_of (add_names cs d) i =
     (case symbolic_name cs i of Some n \<Rightarrow> Some n | None \<Rightarrow> map_of d i)"
proof (induction cs arbitrary: d)
  case Nil
  show ?case by simp
next
  case (Cons c cs)
  obtain name code where c: "c = (name, code)" by (cases c)
  show ?case using Cons.IH [of "dict_set code name d"] Cons.IH [of d]
    by (simp add: c map_of_dict_set split: option.splits)
qed

lemma symbolic_name_sound:
  "symbolic_name cs i = Some name \<Longrightarrow>
     (name, i) \<in> set cs \<and> (name = ''Success'' \<or> startswith_Bad name)"
  by (induction cs) (auto split: option.splits if_splits)

lemma symbolic_name_nonempty: "symbolic_name cs i = Some name \<Longrightarrow> name \<noteq> []"
  using symbolic_name_sound [of cs i name] by (auto simp add: startswith_Bad_def)

lemma get_X_error_unavailable:
  "constants env = Inl e \<Longrightarrow> get_X_error env (PyInt i) s =
     (str_int i, emit (Log Log_x11_util Error ''Error retrieving error string for %s'' [AInt i]) s)"
  by (simp add: get_X_error_def trap_error_def get_X_error_body_def)

lemma get_X_error_fresh:
  assumes "constants env = Inr cs" and "xerror_to_name s = []"
  shows "fst (get_X_error env (PyInt i) s) =
       (case symbolic_name cs i of
          Some name \<Rightarrow> name
        | None \<Rightarrow> if i = 0 then ''OK''
                  else (case get_error_text env i of Inr t \<Rightarrow> t | Inl e \<Rightarrow> str_int i))"
    and "xerror_to_name (snd (get_X_error env (PyInt i) s)) = add_names cs [(0, ''OK'')]"
  using assms symbolic_name_nonempty [of cs i]
  by (auto simp add: get_X_error_def trap_error_def get_X_error_body_def Let_def map_of_add_names
        split: option.splits sum.splits)

lemma get_X_error_cached:
  assumes "constants env = Inr cs" and "xerror_to_name s \<noteq> []"
  shows "fst (get_X_error env (PyInt i) s) =
       (case map_of (xerror_to_name s) i of
          Some name \<Rightarrow> if name = [] then str_int i else name
        | None \<Rightarrow> (case get_error_text env i of Inr t \<Rightarrow> t | Inl e \<Rightarrow> str_int i))"
    and "xerror_to_name (snd (get_X_error env (PyInt i) s)) = xerror_to_name s"
  using assms
  by (auto simp add: get_X_error_def trap_error_def get_X_error_body_def Let_def
        split: option.splits sum.splits)

lemma verify_sync_managed: "0 < depth s \<Longrightarrow> verify_sync env args s = (Inr (), s)"
  by (simp add: verify_sync_def)

lemma verify_sync_no_args:
  "depth s \<le> 0 \<Longrightarrow> verify_sync env [] s =
     (Inr (), log_stack env (emit (Log Log_x11_util Error ''Error: unmanaged X11 context'' []) s))"
  by (simp add: verify_sync_def)

lemma verify_sync_bad_tuple:
  "depth s \<le> 0 \<Longrightarrow> length vs \<noteq> 1 \<Longrightarrow> verify_sync env (PyTuple vs # rest) s =
     (Inl TypeError, emit (Log Log_x11_util Error ''Error: unmanaged X11 context'' []) s)"
proof -
  assume d: "depth s \<le> 0" and l: "length vs \<noteq> 1"
  have "percent_s (PyTuple vs) = Inl TypeError"
  proof (cases vs)
    case Nil
    then show ?thesis by simp
  next
    case (Cons v ws)
    with l show ?thesis by (cases ws) simp_all
  qed
  then show ?thesis using d by (simp add: verify_sync_def)
qed

lemma verify_sync_returns:
  assumes "args = [] \<or> (\<exists>msg. percent_s (hd args) = Inr msg) \<or> 0 < depth s"
  shows "fst (verify_sync env args s) = Inr ()"
  using assms by (cases args) (auto simp add: verify_sync_def Let_def)

lemma verify_sync_logs_stack:
  assumes "depth s \<le> 0" and "fst (verify_sync env args s) = Inr ()"
  shows "\<exists>evs. events (snd (verify_sync env args s)) =
           events s @ Log Log_x11_util Error ''Error: unmanaged X11 context'' [] # evs @
           map (\<lambda>v. Log Log_x11_util Error '' %s'' [AStr v]) (concat (butlast (extract_stack env)))"
  using assms
  by (cases args) (auto simp add: verify_sync_def Let_def log_stack_def split: sum.splits)

section \<open>Properties of the specification\<close>

text \<open>
  C1. The claim: whenever the function run by \<^verbatim>\<open>_call\<close> raises, the exit primitive is
  still invoked exactly once and the caller sees the function's exception. The clause
  of \<^verbatim>\<open>_call\<close> is \<^verbatim>\<open>except Exception\<close>: at a function that raises \<^verbatim>\<open>KeyboardInterrupt\<close>
  the clause is passed by, \<^verbatim>\<open>Xexit\<close> is not called at all, and the call ends with the
  trap still pushed and the depth still 1. (For an exception that is an \<^verbatim>\<open>Exception\<close>,
  \<open>private_call_exit_once\<close> above is the claim.)
\<close>

theorem private_call_KeyboardInterrupt_no_exit:
  "private_call example_env True
     (\<lambda>s. (Inl (NonException ''KeyboardInterrupt'') :: exn + unit, s)) (idle_state []) =
   (Inl (NonException ''KeyboardInterrupt''),
    \<lparr>depth = 1, xerror_to_name = [], gdk = [], events = [GdkPush]\<rparr>)"
  by code_simp

text \<open>
  C2. In a properly nested sequence of enter and exit calls started at a depth that is
  not negative, the number of flushes is the number of exits that bring the depth to 0
  with \<^verbatim>\<open>need_sync\<close> true, which is at most the number of exits that bring the depth to 0
  (one per outermost region); and any single exit flushes exactly when the depth it
  decrements to is 0 and \<^verbatim>\<open>need_sync\<close> is true.
\<close>

theorem flush_only_at_depth_zero:
  assumes "nested 0 ops" and "0 \<le> depth s"
  shows "flushes (events (snd (run_ops env ops s))) =
           flushes (events s) + sync_exits_to_zero (depth s) ops \<and>
         sync_exits_to_zero (depth s) ops \<le> exits_to_zero (depth s) ops \<and>
         (\<forall>b s'. flushes (events (snd (Xexit env b s'))) =
                   flushes (events s') + (if depth s' - 1 = 0 \<and> b then 1 else 0))"
proof -
  have k: "int 0 \<le> depth s" using assms(2) by simp
  from run_ops_nested [OF assms(1) k, of env]
  have "flushes (events (snd (run_ops env ops s))) =
          flushes (events s) + sync_exits_to_zero (depth s) ops" by simp
  then show ?thesis by (simp add: sync_exits_le Xexit_flushes)
qed

theorem flush_only_at_depth_zero_witness:
  "nested 0 [Enter, Enter, Exit True, Exit True, Enter, Exit False] \<and>
   flushes (events (snd (run_ops example_env
       [Enter, Enter, Exit True, Exit True, Enter, Exit False] (idle_state [3, 0, 0])))) = 1"
proof -
  let ?ops = "[Enter, Enter, Exit True, Exit True, Enter, Exit False]"
  have n: "nested 0 ?ops" by simp
  have d: "0 \<le> depth (idle_state [3, 0, 0 :: int])" by (simp add: idle_state_def)
  have c: "flushes (events (idle_state [3, 0, 0 :: int])) +
             sync_exits_to_zero (depth (idle_state [3, 0, 0 :: int])) ?ops = 1"
    by (simp add: idle_state_def flushes_def)
  from flush_only_at_depth_zero [OF n d, of example_env] c n show ?thesis by simp
qed

text \<open>
  C3. After a properly nested sequence of enter and exit calls started at a depth
  \<open>d \<ge> 0\<close> the depth is \<open>d\<close> again, whatever the pops return: every call of the
  sequence returns or raises \<^verbatim>\<open>XError\<close>, and an exit that raises \<^verbatim>\<open>XError\<close> has
  decremented the depth first.
\<close>

theorem depth_restored:
  assumes "nested 0 ops" and "0 \<le> depth s"
  shows "depth (snd (run_ops env ops s)) = depth s \<and>
         list_all benign (fst (run_ops env ops s)) \<and>
         (\<forall>b m s'. fst (Xexit env b s') = Inl (XError m) \<longrightarrow>
                     depth (snd (Xexit env b s')) = depth s' - 1)"
proof -
  have k: "int 0 \<le> depth s" using assms(2) by simp
  from run_ops_nested [OF assms(1) k, of env]
  have "depth (snd (run_ops env ops s)) = depth s" "list_all benign (fst (run_ops env ops s))"
    by simp_all
  then show ?thesis by (simp add: Xexit_XError_depth)
qed

theorem depth_restored_witness:
  "nested 0 [Enter, Enter, Exit True, Exit True] \<and>
   fst (run_ops example_env [Enter, Enter, Exit True, Exit True] (idle_state [3])) ! 2 =
     Inl (XError ''BadWindow'') \<and>
   depth (snd (run_ops example_env [Enter, Enter, Exit True, Exit True] (idle_state [3]))) = 0"
proof -
  let ?ops = "[Enter, Enter, Exit True, Exit True]"
  have n: "nested 0 ?ops" by simp
  have d: "0 \<le> depth (idle_state [3 :: int])" by (simp add: idle_state_def)
  have r: "fst (run_ops example_env ?ops (idle_state [3])) ! 2 = Inl (XError ''BadWindow'')"
    by code_simp
  have z: "depth (idle_state [3 :: int]) = 0" by (simp add: idle_state_def)
  from depth_restored [OF n d, of example_env] n r z show ?thesis by simp
qed

text \<open>
  C4, amended. A block run under \<^verbatim>\<open>with xswallow:\<close> from a depth that is not negative,
  and leaving the depth not negative: whatever the block does, return or raise any
  exception, protocol error or not, the statement completes normally, because
  \<^verbatim>\<open>__exit__\<close> returns \<^verbatim>\<open>True\<close>; an \<^verbatim>\<open>XError\<close> of the exit is discarded; the trap is
  popped exactly once, after a flush when the exit brings the depth to 0.
\<close>

theorem xswallow_swallows_everything:
  assumes "0 \<le> depth s" and "block (snd (Xenter env s)) = (r, s')" and "0 \<le> depth s'"
  shows "fst (xswallow env block s) = Inr () \<and>
         depth (snd (xswallow env block s)) = depth s' - 1 \<and>
         gdk_trace (events (snd (xswallow env block s))) =
           gdk_trace (events s') @ (if exit_flush True s' then [GdkFlush] else []) @
           [GdkPop (exit_code env True s')] \<and>
         pops (events (snd (xswallow env block s))) = pops (events s') + 1"
proof -
  define t where "t = (case r of Inl e \<Rightarrow> Some e | Inr u \<Rightarrow> None)"
  note h = XSwallowContext_exit_ok [OF assms(3), of env t]
  have w: "xswallow env block s = (Inr (), snd (XSwallowContext_exit env t s'))"
    using h(1) assms(2) Xenter_ok(1) [OF assms(1), of env]
    by (cases "XSwallowContext_exit env t s'"; cases r)
       (simp_all add: xswallow_def py_with_entered t_def)
  have "pops (events (snd (XSwallowContext_exit env t s'))) = pops (events s') + 1"
    using pops_eq_of_gdk_trace [OF h(3)] by (simp add: pops_def)
  then show ?thesis using h by (simp add: w)
qed

theorem xswallow_swallows_everything_witness:
  "fst (xswallow example_env (\<lambda>s. (Inl (OtherException ''ValueError''), s)) (idle_state [8])) = Inr () \<and>
   depth (snd (xswallow example_env (\<lambda>s. (Inl (OtherException ''ValueError''), s))
     (idle_state [8]))) = 0"
proof -
  let ?block = "\<lambda>s :: int list trap_state. (Inl (OtherException ''ValueError'') :: exn + unit, s)"
  let ?s1 = "snd (Xenter example_env (idle_state [8]))"
  have d: "0 \<le> depth (idle_state [8 :: int])" by (simp add: idle_state_def)
  have b: "?block ?s1 = (Inl (OtherException ''ValueError''), ?s1)" by simp
  have d1: "depth ?s1 = 1" using Xenter_ok(2) [OF d, of example_env] by (simp add: idle_state_def)
  then have d2: "0 \<le> depth ?s1" by simp
  from xswallow_swallows_everything
         [where s = "idle_state [8]" and env = example_env and block = ?block
            and r = "Inl (OtherException ''ValueError'')" and s' = ?s1] d b d2 d1
  show ?thesis by simp
qed

theorem xswallow_other_exception_counterexample:
  "fst (xswallow example_env (\<lambda>s. (Inl (OtherException ''ValueError''), s)) (idle_state [])) = Inr () \<and>
   fst (xswallow example_env (\<lambda>s. (Inl (OtherException ''ValueError''), s)) (idle_state []))
     \<noteq> Inl (OtherException ''ValueError'')"
  by code_simp

text \<open>
  C5. A block run under \<^verbatim>\<open>with xsync:\<close> from a depth that is not negative: when the block
  returns and the exit raises \<^verbatim>\<open>XError\<close>, the statement raises that \<^verbatim>\<open>XError\<close>; when the
  block raises an exception and the exit raises \<^verbatim>\<open>XError\<close>, the \<^verbatim>\<open>XError\<close> is logged and
  dropped and the statement raises the block's exception.
\<close>

theorem xsync_strict:
  assumes "0 \<le> depth s"
  shows "(\<forall>s2 s3 m. block (snd (Xenter env s)) = (Inr (), s2) \<longrightarrow>
            Xexit env True s2 = (Inl (XError m), s3) \<longrightarrow>
            xsync env block s = (Inl (XError m), s3)) \<and>
         (\<forall>e s2 s3 m. block (snd (Xenter env s)) = (Inl e, s2) \<longrightarrow>
            Xexit env True s2 = (Inl (XError m), s3) \<longrightarrow>
            xsync env block s =
              (Inl e, emit (Log Log_x11_util Debug
                 (''Ignoring '' @ class_repr e @ '' during Xexit, '' @ class_repr e @
                  '' will be raised instead'') []) s3))"
  using Xenter_ok(1) [OF assms, of env]
  by (simp add: xsync_def py_with_entered XSyncContext_exit_def)

theorem xsync_strict_witness:
  "fst (xsync example_env (\<lambda>s. (Inr (), s)) (idle_state [8])) = Inl (XError ''BadMatch'') \<and>
   fst (xsync example_env (\<lambda>s. (Inl (OtherException ''ValueError''), s)) (idle_state [8])) =
     Inl (OtherException ''ValueError'')"
proof -
  let ?ok = "\<lambda>s :: int list trap_state. (Inr () :: exn + unit, s)"
  let ?bad = "\<lambda>s :: int list trap_state. (Inl (OtherException ''ValueError'') :: exn + unit, s)"
  let ?s1 = "snd (Xenter example_env (idle_state [8]))"
  let ?s3 = "snd (Xexit example_env True ?s1)"
  have d: "0 \<le> depth (idle_state [8 :: int])" by (simp add: idle_state_def)
  have f: "fst (Xexit example_env True ?s1) = Inl (XError ''BadMatch'')" by code_simp
  have x: "Xexit example_env True ?s1 = (Inl (XError ''BadMatch''), ?s3)"
    using f by (simp add: prod_eq_iff)
  have b1: "?ok ?s1 = (Inr (), ?s1)" and b2: "?bad ?s1 = (Inl (OtherException ''ValueError''), ?s1)"
    by simp_all
  from xsync_strict [OF d, of ?ok example_env] b1 x
  have "xsync example_env ?ok (idle_state [8]) = (Inl (XError ''BadMatch''), ?s3)" by blast
  moreover from xsync_strict [OF d, of ?bad example_env] b2 x
  have "fst (xsync example_env ?bad (idle_state [8])) = Inl (OtherException ''ValueError'')"
    by (metis fst_conv)
  ultimately show ?thesis by simp
qed

text \<open>
  C6, amended. Three nested \<^verbatim>\<open>call_unsynced\<close> calls started at depth 0, the innermost
  function returning at depth 3 and the pop of the innermost exit returning a code that
  is not 0: none of the three exits flushes, the one at depth 0 included, since
  \<^verbatim>\<open>need_sync\<close> is false; the trap is popped three times; the depth is 0 again; and the
  outermost caller gets one \<^verbatim>\<open>XError\<close>, the one of the innermost exit.
\<close>

theorem three_nested_unsynced_no_flush:
  assumes "depth s = 0"
    and "fn (snd (Xenter env (snd (Xenter env (snd (Xenter env s)))))) = (Inr v, sf)"
    and "depth sf = 3"
    and "fst (error_trap_pop env (gdk sf)) \<noteq> 0"
  shows "fst (three_nested_unsynced env fn s) =
           Inl (XError (fst (get_X_error env (PyInt (fst (error_trap_pop env (gdk sf)))) sf))) \<and>
         depth (snd (three_nested_unsynced env fn s)) = 0 \<and>
         flushes (events (snd (three_nested_unsynced env fn s))) = flushes (events sf) \<and>
         pops (events (snd (three_nested_unsynced env fn s))) = pops (events sf) + 3"
proof -
  let ?c = "fst (error_trap_pop env (gdk sf))"
  let ?e = "XError (fst (get_X_error env (PyInt ?c) sf))"
  let ?sA = "snd (Xenter env s)"
  let ?sB = "snd (Xenter env ?sA)"
  let ?inner = "private_call env False fn ?sB"
  let ?middle = "private_call env False (\<lambda>s2. private_call env False fn s2) ?sA"
  let ?outer = "private_call env False (\<lambda>s1. private_call env False (\<lambda>s2. private_call env False fn s2) s1) s"
  have d0: "0 \<le> depth s" using assms(1) by simp
  have dA: "depth ?sA = 1" using Xenter_ok(2) [OF d0, of env] assms(1) by simp
  then have dA0: "0 \<le> depth ?sA" by simp
  have dB: "depth ?sB = 2" using Xenter_ok(2) [OF dA0, of env] dA by simp
  then have dB0: "0 \<le> depth ?sB" by simp
  have df: "0 \<le> depth sf" using assms(3) by simp
  have cf: "exit_code env False sf \<noteq> 0" using assms(4) by (simp add: exit_code_False)
  note i = private_call_exit_error [of ?sB fn env v sf False, OF dB0 assms(2) df cf]
  obtain s5 where inner: "?inner = (Inl ?e, s5)"
    using i(1) by (cases ?inner) (simp add: exit_code_False)
  have d5: "depth s5 = 2" and t5: "gdk_trace (events s5) = gdk_trace (events sf) @ [GdkPop ?c]"
    using i(2,3) inner assms(3) by (simp_all add: exit_code_False)
  have d50: "0 \<le> depth s5" using d5 by simp
  have exc: "is_Exception ?e" by simp
  note m = private_call_exit_once [of ?sA "\<lambda>s2. private_call env False fn s2" env ?e s5 False,
      OF dA0 inner exc d50]
  obtain s6 where middle: "?middle = (Inl ?e, s6)"
    using m by (cases ?middle) simp
  have d6: "depth s6 = 1"
    and t6: "gdk_trace (events s6) = gdk_trace (events s5) @ [GdkPop (exit_code env False s5)]"
    using m middle d5 by simp_all
  have d60: "0 \<le> depth s6" using d6 by simp
  note out = private_call_exit_once
      [of s "\<lambda>s1. private_call env False (\<lambda>s2. private_call env False fn s2) s1" env ?e s6 False,
       OF d0 middle exc d60]
  have r: "three_nested_unsynced env fn s = ?outer"
    by (simp add: three_nested_unsynced_def call_unsynced_def)
  have t7: "gdk_trace (events (snd ?outer)) =
      gdk_trace (events sf) @ [GdkPop ?c, GdkPop (exit_code env False s5), GdkPop (exit_code env False s6)]"
    using out t6 t5 by simp
  have "flushes (events (snd ?outer)) = flushes (events sf)"
    using flushes_eq_of_gdk_trace [OF t7] by (simp add: flushes_def)
  moreover have "pops (events (snd ?outer)) = pops (events sf) + 3"
    using pops_eq_of_gdk_trace [OF t7] by (simp add: pops_def)
  ultimately show ?thesis using out d6 by (simp add: r)
qed

theorem three_nested_unsynced_no_flush_witness:
  "fst (three_nested_unsynced example_env (\<lambda>s. (Inr (), s\<lparr>gdk := [3]\<rparr>)) (idle_state [])) =
     Inl (XError ''BadWindow'') \<and>
   flushes (events (snd (three_nested_unsynced example_env (\<lambda>s. (Inr (), s\<lparr>gdk := [3]\<rparr>))
     (idle_state [])))) = 0"
proof -
  let ?fn = "\<lambda>s :: int list trap_state. (Inr () :: exn + unit, s\<lparr>gdk := [3]\<rparr>)"
  let ?s3 = "snd (Xenter example_env (snd (Xenter example_env (snd (Xenter example_env (idle_state []))))))"
  let ?s4 = "?s3\<lparr>gdk := [3]\<rparr>"
  have d: "depth (idle_state ([] :: int list)) = 0" by (simp add: idle_state_def)
  have f: "?fn ?s3 = (Inr (), ?s4)" by simp
  have d4: "depth ?s4 = 3" by code_simp
  have c: "fst (error_trap_pop example_env (gdk ?s4)) \<noteq> 0"
    by (simp add: example_env_def tape_pop_def)
  have m: "fst (get_X_error example_env (PyInt (fst (error_trap_pop example_env (gdk ?s4)))) ?s4) =
             ''BadWindow''" by code_simp
  have z: "flushes (events ?s4) = 0" by code_simp
  from three_nested_unsynced_no_flush
         [where s = "idle_state []" and env = example_env and fn = ?fn and v = "()" and sf = ?s4]
       d f d4 c m z
  show ?thesis by simp
qed

theorem three_nested_unsynced_counterexample:
  "gdk_trace (events (snd (three_nested_unsynced example_env
      (\<lambda>s. (Inr () :: exn + unit, s\<lparr>gdk := [3]\<rparr>)) (idle_state [])))) =
     [GdkPush, GdkPush, GdkPush, GdkPop 3, GdkPop 0, GdkPop 0] \<and>
   flushes (events (snd (three_nested_unsynced example_env
      (\<lambda>s. (Inr () :: exn + unit, s\<lparr>gdk := [3]\<rparr>)) (idle_state [])))) \<noteq> 1"
  by code_simp

text \<open>
  C7, amended. \<^verbatim>\<open>assert_out()\<close> is the bare statement \<^verbatim>\<open>assert self.depth == 0\<close>: called
  while the depth is not 0 (2, say) it raises \<^verbatim>\<open>AssertionError\<close> and logs nothing; called
  at depth 0 it returns. The state is the same after it either way.
\<close>

theorem assert_out_raises:
  "(depth s \<noteq> 0 \<longrightarrow> assert_out s = (Inl AssertionError, s)) \<and>
   (depth s = 0 \<longrightarrow> assert_out s = (Inr (), s))"
  by (simp add: assert_out_def)

theorem assert_out_raises_witness:
  "depth ((idle_state ([] :: int list))\<lparr>depth := 2\<rparr>) \<noteq> 0 \<and>
   fst (assert_out ((idle_state ([] :: int list))\<lparr>depth := 2\<rparr>)) = Inl AssertionError"
  using assert_out_raises [of "(idle_state ([] :: int list))\<lparr>depth := 2\<rparr>"]
  by (simp add: idle_state_def)

theorem assert_out_counterexample:
  "fst (assert_out ((idle_state ([] :: int list))\<lparr>depth := 2\<rparr>)) = Inl AssertionError \<and>
   filter is_error_log (events (snd (assert_out ((idle_state ([] :: int list))\<lparr>depth := 2\<rparr>)))) = []"
  by (simp add: assert_out_def idle_state_def)

text \<open>
  C8, amended. The generic \<^verbatim>\<open>call\<close> and \<^verbatim>\<open>swallow\<close> exit with \<^verbatim>\<open>need_sync\<close> equal to
  \<^verbatim>\<open>XPRA_SYNCHRONIZE\<close>. Under the default configuration, where that switch is off, they
  are \<^verbatim>\<open>call_unsynced\<close> and \<^verbatim>\<open>swallow_unsynced\<close>: they exit with \<^verbatim>\<open>need_sync\<close> false and
  add no flush to what the function itself did, at depth 0 as at any other depth.
\<close>

theorem call_follows_XPRA_SYNCHRONIZE:
  assumes "0 \<le> depth s"
  shows "call env fn s = private_call env (XPRA_SYNCHRONIZE env) fn s \<and>
         swallow env fn s = swallow_result (private_call env (XPRA_SYNCHRONIZE env) fn s) \<and>
         (\<not> XPRA_SYNCHRONIZE env \<longrightarrow>
            flushes (events (snd (call env fn s))) =
              flushes (events (snd (fn (snd (Xenter env s))))) \<and>
            flushes (events (snd (swallow env fn s))) =
              flushes (events (snd (fn (snd (Xenter env s))))))"
  using private_call_unsynced_flushes [OF assms, of env fn]
  by (simp add: call_def swallow_def call_unsynced_def call_synced_def swallow_unsynced_def
        swallow_synced_def swallow_result_flushes)

theorem call_follows_XPRA_SYNCHRONIZE_witness:
  "\<not> XPRA_SYNCHRONIZE example_env \<and>
   flushes (events (snd (call example_env (\<lambda>s. (Inr (), s)) (idle_state [])))) = 0 \<and>
   flushes (events (snd (swallow example_env (\<lambda>s. (Inr (), s)) (idle_state [])))) = 0"
proof -
  let ?fn = "\<lambda>s :: int list trap_state. (Inr () :: exn + unit, s)"
  have d: "0 \<le> depth (idle_state ([] :: int list))" by (simp add: idle_state_def)
  have x: "\<not> XPRA_SYNCHRONIZE example_env" by (simp add: example_env_def)
  have z: "flushes (events (snd (?fn (snd (Xenter example_env (idle_state [])))))) = 0"
    by code_simp
  note t = call_follows_XPRA_SYNCHRONIZE
             [where s = "idle_state []" and env = example_env and fn = ?fn, OF d]
  from t x have
    "flushes (events (snd (call example_env ?fn (idle_state [])))) =
       flushes (events (snd (?fn (snd (Xenter example_env (idle_state []))))))"
    "flushes (events (snd (swallow example_env ?fn (idle_state [])))) =
       flushes (events (snd (?fn (snd (Xenter example_env (idle_state []))))))"
    by blast+
  with x z show ?thesis by simp
qed

theorem call_default_counterexample:
  "gdk_trace (events (snd (call example_env (\<lambda>s. (Inr () :: exn + unit, s)) (idle_state [])))) =
     [GdkPush, GdkPop 0] \<and>
   gdk_trace (events (snd (call_synced example_env (\<lambda>s. (Inr () :: exn + unit, s)) (idle_state [])))) =
     [GdkPush, GdkFlush, GdkPop 0] \<and>
   gdk_trace (events (snd (swallow example_env (\<lambda>s. (Inr () :: exn + unit, s)) (idle_state [])))) =
     [GdkPush, GdkPop 0]"
  by code_simp

text \<open>
  C9. \<^verbatim>\<open>get_X_error\<close> on an int code returns a string and never raises. When the import
  of the constants fails it returns the code as a string. Otherwise, on the first call
  it builds the cache from the constants named \<^verbatim>\<open>Success\<close> or \<^verbatim>\<open>Bad...\<close> and a code with
  such a constant resolves to that symbolic name; a code the cache does not hold gets
  the text of \<^verbatim>\<open>get_error_text\<close>, and the code as a string when that call fails. On
  later calls the cache is used as it is.
\<close>

theorem get_X_error_resolves:
  "(\<forall>e. constants env = Inl e \<longrightarrow> fst (get_X_error env (PyInt i) s) = str_int i) \<and>
   (\<forall>cs. constants env = Inr cs \<longrightarrow> xerror_to_name s = [] \<longrightarrow>
      fst (get_X_error env (PyInt i) s) =
        (case symbolic_name cs i of
           Some name \<Rightarrow> name
         | None \<Rightarrow> if i = 0 then ''OK''
                   else (case get_error_text env i of Inr t \<Rightarrow> t | Inl e \<Rightarrow> str_int i)) \<and>
      xerror_to_name (snd (get_X_error env (PyInt i) s)) = add_names cs [(0, ''OK'')]) \<and>
   (\<forall>cs. constants env = Inr cs \<longrightarrow> xerror_to_name s \<noteq> [] \<longrightarrow>
      fst (get_X_error env (PyInt i) s) =
        (case map_of (xerror_to_name s) i of
           Some name \<Rightarrow> if name = [] then str_int i else name
         | None \<Rightarrow> (case get_error_text env i of Inr t \<Rightarrow> t | Inl e \<Rightarrow> str_int i)) \<and>
      xerror_to_name (snd (get_X_error env (PyInt i) s)) = xerror_to_name s) \<and>
   (\<forall>cs name. symbolic_name cs i = Some name \<longrightarrow>
      (name, i) \<in> set cs \<and> (name = ''Success'' \<or> startswith_Bad name))"
  using symbolic_name_sound [of _ i]
  by (simp add: get_X_error_unavailable get_X_error_fresh get_X_error_cached)

theorem get_X_error_resolves_witness:
  "fst (get_X_error example_env (PyInt 3) (idle_state [])) = ''BadWindow'' \<and>
   fst (get_X_error example_env (PyInt 11) (idle_state [])) = ''error 11'' \<and>
   fst (get_X_error (example_env\<lparr>constants := Inl (OtherException ''ImportError'')\<rparr>) (PyInt 3)
          (idle_state [])) = ''3''"
proof -
  let ?cs = "[(''Success'', 0), (''BadRequest'', 1), (''BadValue'', 2),
              (''BadWindow'', 3), (''BadMatch'', 8), (''CurrentTime'', 0 :: int)]"
  let ?env' = "example_env\<lparr>constants := Inl (OtherException ''ImportError'')\<rparr>"
  have c: "constants example_env = Inr ?cs" by (simp add: example_env_def)
  have c': "constants ?env' = Inl (OtherException ''ImportError'')" by simp
  have x: "xerror_to_name (idle_state ([] :: int list)) = []" by (simp add: idle_state_def)
  have n3: "symbolic_name ?cs 3 = Some ''BadWindow''" by code_simp
  have n11: "symbolic_name ?cs 11 = None" by code_simp
  have t11: "get_error_text example_env 11 = Inr ''error 11''" by code_simp
  have s3: "str_int 3 = ''3''" by code_simp
  from get_X_error_resolves [of example_env 3 "idle_state []"] c x n3
  have a: "fst (get_X_error example_env (PyInt 3) (idle_state [])) = ''BadWindow''" by simp
  from get_X_error_resolves [of example_env 11 "idle_state []"] c x n11 t11
  have b: "fst (get_X_error example_env (PyInt 11) (idle_state [])) = ''error 11''" by simp
  from get_X_error_resolves [of ?env' 3 "idle_state []"] c' s3
  have "fst (get_X_error ?env' (PyInt 3) (idle_state [])) = ''3''" by simp
  with a b show ?thesis by simp
qed

text \<open>
  C10. The claim: \<^verbatim>\<open>verify_sync\<close> never raises, whatever its arguments. Its second log
  line formats \<^verbatim>\<open>" %s" % args[0]\<close>; when the first argument is a tuple that does not
  hold exactly one value, that expression raises \<^verbatim>\<open>TypeError\<close>: at depth 0 the call
  \<^verbatim>\<open>verify_sync((1, 2))\<close> writes the first error line and raises, before any stack
  line is logged. (With no argument, or a first argument that is not such a tuple, it
  returns: \<open>verify_sync_returns\<close> above.)
\<close>

theorem verify_sync_tuple_raises:
  "verify_sync example_env [PyTuple [PyInt 1, PyInt 2]] (idle_state []) =
     (Inl TypeError,
      \<lparr>depth = 0, xerror_to_name = [], gdk = [],
       events = [Log Log_x11_util Error ''Error: unmanaged X11 context'' []]\<rparr>)"
  by code_simp

end
